theory Spec2Isabelle
  imports Complex_Main "HOL-Library.Word"
begin

section \<open>Errors and arrays\<close>

text \<open>
  The exceptions the modelled Python code can raise. A function that may raise returns
  \<open>error + 'a\<close>, with \<open>Inl\<close> for the exception.
\<close>

datatype error = AttributeError | IndexError | KeyError | TypeError | ValueError | OSError

definition bind_err :: "error + 'a \<Rightarrow> ('a \<Rightarrow> error + 'b) \<Rightarrow> error + 'b" where
  "bind_err m f = (case m of Inl e \<Rightarrow> Inl e | Inr x \<Rightarrow> f x)"

text \<open>
  A numpy array with one or two axes. \<open>Arr1 xs\<close> has shape \<open>(length xs,)\<close>.
  \<open>Arr2 c rows\<close> has shape \<open>(length rows, c)\<close>: \<open>rows\<close> lists the entries along axis 0
  and \<open>c\<close> is the length of axis 1, kept apart so that an array with no rows still has a
  second axis length.
\<close>

datatype 'a ndarray = Arr1 "'a list" | Arr2 nat "'a list list"

fun wf_array :: "'a ndarray \<Rightarrow> bool" where
  "wf_array (Arr1 xs) = True"
| "wf_array (Arr2 c rows) = list_all (\<lambda>r. length r = c) rows"

fun shape :: "'a ndarray \<Rightarrow> nat list" where
  "shape (Arr1 xs) = [length xs]"
| "shape (Arr2 c rows) = [length rows, c]"

text \<open>\<open>a.shape[i]\<close> for a literal index \<open>i\<close>: a tuple index out of range raises IndexError.\<close>

definition shape_at :: "'a ndarray \<Rightarrow> nat \<Rightarrow> error + nat" where
  "shape_at a i = (if i < length (shape a) then Inr (shape a ! i) else Inl IndexError)"

text \<open>\<open>a.T\<close>: reverses the axes; a one-axis array is returned as it is.\<close>

fun ndarray_T :: "'a ndarray \<Rightarrow> 'a ndarray" where
  "ndarray_T (Arr1 xs) = Arr1 xs"
| "ndarray_T (Arr2 c rows) = Arr2 (length rows) (map (\<lambda>j. map (\<lambda>r. r ! j) rows) [0..<c])"

section \<open>Loudness scaling\<close>

text \<open>
  \<open>pyln.normalize.loudness(data, input_loudness, target_loudness)\<close> of the pyloudnorm
  library multiplies every sample by the gain \<open>10 ^ ((target - input) / 20)\<close>.
\<close>

definition normalize_loudness :: "real ndarray \<Rightarrow> real \<Rightarrow> real \<Rightarrow> real ndarray" where
  "normalize_loudness data input_loudness target_loudness =
     map_ndarray (\<lambda>x. 10 powr ((target_loudness - input_loudness) / 20) * x) data"

text \<open>
  \<open>CarSceneAcoustics.scale_signal_to_snr\<close>. The loudness meter of the instance
  (\<open>self.loudness_meter.integrated_loudness\<close>, an external capability that may raise) is the
  parameter \<open>integrated_loudness\<close>. \<open>reference_signal\<close> and \<open>snr\<close> may be Python's None.
  The statements are kept in the order of the source:
  the two orientation tests (lines 238 to 241) come before the test for None (line 245).
\<close>

definition scale_signal_to_snr ::
  "(real ndarray \<Rightarrow> error + real) \<Rightarrow> real ndarray \<Rightarrow> real ndarray option \<Rightarrow> real option
     \<Rightarrow> error + real ndarray" where
  "scale_signal_to_snr integrated_loudness signal reference_signal snr =
     bind_err
       (case reference_signal of
          None \<Rightarrow> Inl AttributeError
        | Some r \<Rightarrow>
            bind_err (shape_at r 0) (\<lambda>r0.
            bind_err (shape_at r 1) (\<lambda>r1.
              Inr (if r0 < r1 then Some (ndarray_T r) else Some r))))
       (\<lambda>reference_signal.
     bind_err
       (bind_err (shape_at signal 0) (\<lambda>s0.
        bind_err (shape_at signal 1) (\<lambda>s1.
          Inr (if s0 < s1 then ndarray_T signal else signal))))
       (\<lambda>signal.
     bind_err
       (case reference_signal of
          None \<Rightarrow> Inr 0
        | Some r \<Rightarrow> integrated_loudness r)
       (\<lambda>ref_signal_lufs.
     bind_err (integrated_loudness signal) (\<lambda>signal_lufs.
     bind_err
       (case snr of
          None \<Rightarrow> Inl TypeError
        | Some s \<Rightarrow> Inr (ref_signal_lufs + s))
       (\<lambda>target_lufs.
     Inr (ndarray_T (normalize_loudness signal signal_lufs target_lufs)))))))"

section \<open>Signal mixing\<close>

text \<open>\<open>a[:, :n]\<close>: needs two axes (IndexError otherwise); keeps the first \<open>n\<close> entries of axis 1.\<close>

definition slice_cols :: "'a ndarray \<Rightarrow> nat \<Rightarrow> error + 'a ndarray" where
  "slice_cols a n =
     (case a of
        Arr1 xs \<Rightarrow> Inl IndexError
      | Arr2 c rows \<Rightarrow> Inr (Arr2 (min n c) (map (take n) rows)))"

text \<open>
  numpy's \<open>+\<close> on arrays: the axis lengths are broadcast (equal, or one of them 1), and a
  ValueError is raised when they cannot be.
\<close>

definition bcast_dim :: "nat \<Rightarrow> nat \<Rightarrow> error + nat" where
  "bcast_dim n m =
     (if n = m then Inr n else if n = 1 then Inr m else if m = 1 then Inr n
      else Inl ValueError)"

definition stretch :: "nat \<Rightarrow> 'a list \<Rightarrow> 'a list" where
  "stretch n xs = (if length xs = n then xs else replicate n (hd xs))"

definition add_2d ::
  "nat \<Rightarrow> real list list \<Rightarrow> nat \<Rightarrow> real list list \<Rightarrow> error + real ndarray" where
  "add_2d c1 rows1 c2 rows2 =
     bind_err (bcast_dim (length rows1) (length rows2)) (\<lambda>r.
     bind_err (bcast_dim c1 c2) (\<lambda>c.
       Inr (Arr2 c (map2 (\<lambda>x y. map2 (+) (stretch c x) (stretch c y))
                      (stretch r rows1) (stretch r rows2)))))"

fun ndarray_add :: "real ndarray \<Rightarrow> real ndarray \<Rightarrow> error + real ndarray" where
  "ndarray_add (Arr2 c1 rows1) (Arr2 c2 rows2) = add_2d c1 rows1 c2 rows2"
| "ndarray_add (Arr1 xs) (Arr1 ys) =
     bind_err (bcast_dim (length xs) (length ys)) (\<lambda>c.
       Inr (Arr1 (map2 (+) (stretch c xs) (stretch c ys))))"
| "ndarray_add (Arr1 xs) (Arr2 c2 rows2) = add_2d (length xs) [xs] c2 rows2"
| "ndarray_add (Arr2 c1 rows1) (Arr1 ys) = add_2d c1 rows1 (length ys) [ys]"

text \<open>\<open>CarSceneAcoustics.add_two_signals\<close> (a static method).\<close>

definition add_two_signals :: "real ndarray \<Rightarrow> real ndarray \<Rightarrow> error + real ndarray" where
  "add_two_signals signal1 signal2 =
     bind_err (shape_at signal1 1) (\<lambda>n1.
     bind_err (shape_at signal2 1) (\<lambda>n2.
       let min_length = min n1 n2 in
       bind_err (slice_cols signal1 min_length) (\<lambda>a.
       bind_err (slice_cols signal2 min_length) (\<lambda>b.
         ndarray_add a b))))"

text \<open>
  The mix as the specification words it: both buffers cut to \<open>n\<close> samples and summed
  entry by entry, channel by channel.
\<close>

definition mixed_rows :: "nat \<Rightarrow> real list list \<Rightarrow> real list list \<Rightarrow> real list list" where
  "mixed_rows n rows1 rows2 = map2 (\<lambda>x y. map2 (+) (take n x) (take n y)) rows1 rows2"

section \<open>Linear filtering\<close>

text \<open>
  \<open>scipy.signal.lfilter(b, a, x)\<close> on a one-axis input is the library's direct-form
  filter \<open>a[0] y[n] = b[0] x[n] + ... + b[M] x[n-M] - a[1] y[n-1] - ... - a[N] y[n-N]\<close>,
  started at rest. \<open>xpast\<close> and \<open>ypast\<close> hold the earlier inputs and outputs, the latest
  first. The scene code calls it with the scalar denominator 1 only, the list \<open>[1]\<close> here;
  with a denominator of one entry the library convolves the numerator with the input
  (\<open>np.convolve\<close>), which raises a ValueError when the numerator or the input is empty.
\<close>

definition dot :: "real list \<Rightarrow> real list \<Rightarrow> real" where
  "dot xs ys = sum_list (map2 (*) xs ys)"

fun lfilter_run ::
  "real list \<Rightarrow> real list \<Rightarrow> real list \<Rightarrow> real list \<Rightarrow> real list \<Rightarrow> real list" where
  "lfilter_run b a xpast ypast [] = []"
| "lfilter_run b a xpast ypast (x # xs) =
     (let y = (dot b (x # xpast) - dot (tl a) ypast) / hd a
      in y # lfilter_run b a (x # xpast) (y # ypast) xs)"

definition lfilter :: "real list \<Rightarrow> real list \<Rightarrow> real list \<Rightarrow> error + real list" where
  "lfilter b a x =
     (if b = [] \<or> x = [] then Inl ValueError else Inr (lfilter_run b a [] [] x))"

text \<open>
  Causal FIR filtering as the specification words it: the output is as long as the input,
  and sample \<open>n\<close> of it is \<open>h[0] x[n] + h[1] x[n-1] + ...\<close> over the taps that reach no
  further back than the first input sample.
\<close>

definition causal_fir :: "real list \<Rightarrow> real list \<Rightarrow> real list" where
  "causal_fir h x =
     map (\<lambda>n. \<Sum>k\<leftarrow>[0..<min (Suc n) (length h)]. h ! k * x ! (n - k)) [0..<length x]"

section \<open>The car scene\<close>

text \<open>
  The objects a \<open>CarSceneAcoustics\<close> holds. \<open>CarNoiseSignalGenerator\<close> and \<open>pyln.Meter\<close>
  are external classes: they are represented by the arguments they were constructed with.
  The enhancer and the compressor are external objects of the types \<open>'n\<close> and \<open>'c\<close>.
\<close>

record CarNoiseSignalGenerator =
  duration_secs :: real
  generator_sample_rate :: nat

datatype Meter = Meter nat

record ('n, 'c) CarSceneAcoustics =
  track_duration :: real
  sample_rate :: nat
  hrtf_dir :: string
  hrir_values :: "string \<rightharpoonup> real list"
  enhancer :: 'n
  compressor :: 'c
  carnoise :: CarNoiseSignalGenerator
  loudness_meter :: Meter

text \<open>The class constant \<open>ANECHOIC_HRTF\<close>, in the order of the dictionary literal.\<close>

definition ANECHOIC_HRTF :: "(string \<times> string) list" where
  "ANECHOIC_HRTF =
     [(''000_left'', ''HR36_LSP01_CH1_Left.wav''),
      (''000_right'', ''HR36_LSP01_CH1_Right.wav''),
      (''m90_left'', ''HR0_LSP01_CH1_Left.wav''),
      (''m90_right'', ''HR0_LSP01_CH1_Right.wav''),
      (''p90_left'', ''HR72_LSP01_CH1_Left.wav''),
      (''p90_right'', ''HR72_LSP01_CH1_Right.wav'')]"

text \<open>
  \<open>preload_anechoic_hrtf\<close>: \<open>self.hrir_values\<close> is emptied and then filled key by key.
  \<open>wavfile_read\<close> stands for \<open>wavfile.read(path)[1]\<close>, which may raise. When it does, the
  loop stops and the keys stored so far stay in the instance.
\<close>

fun preload_loop ::
  "(string \<Rightarrow> error + real list) \<Rightarrow> string \<Rightarrow> (string \<times> string) list
     \<Rightarrow> (string \<rightharpoonup> real list) \<Rightarrow> (error + unit) \<times> (string \<rightharpoonup> real list)" where
  "preload_loop wavfile_read anechoic_hrtf_dir [] values = (Inr (), values)"
| "preload_loop wavfile_read anechoic_hrtf_dir ((key, item) # rest) values =
     (case wavfile_read (anechoic_hrtf_dir @ ''/'' @ item) of
        Inl e \<Rightarrow> (Inl e, values)
      | Inr v \<Rightarrow> preload_loop wavfile_read anechoic_hrtf_dir rest (values(key \<mapsto> v)))"

definition preload_anechoic_hrtf ::
  "(string \<Rightarrow> error + real list) \<Rightarrow> string \<Rightarrow> ('n, 'c) CarSceneAcoustics
     \<Rightarrow> (error + unit) \<times> ('n, 'c) CarSceneAcoustics" where
  "preload_anechoic_hrtf wavfile_read hrtf_dir' self =
     (let anechoic_hrtf_dir = hrtf_dir' @ ''/Anechoic/audio'';
          (res, values) = preload_loop wavfile_read anechoic_hrtf_dir ANECHOIC_HRTF Map.empty
      in (res, self\<lparr>hrir_values := values\<rparr>))"

text \<open>
  \<open>__init__\<close>. \<open>new_nalr\<close> and \<open>new_compressor\<close> stand for the external constructors
  \<open>NALR(**config_nalr)\<close> and \<open>Compressor(**config_compressor)\<close>, which may raise.
  \<open>extend_noise\<close> is \<open>None\<close> when the caller leaves the argument out, and the default
  0.2 is then taken. The instance exists only when no step raised.
\<close>

definition extend_noise_default :: real where
  "extend_noise_default = 0.2"

definition init ::
  "(string \<Rightarrow> error + real list) \<Rightarrow> ('cn \<Rightarrow> error + 'n) \<Rightarrow> ('cc \<Rightarrow> error + 'c)
     \<Rightarrow> real \<Rightarrow> nat \<Rightarrow> string \<Rightarrow> 'cn \<Rightarrow> 'cc \<Rightarrow> real option
     \<Rightarrow> error + ('n, 'c) CarSceneAcoustics" where
  "init wavfile_read new_nalr new_compressor
        track_duration' sample_rate' hrtf_dir' config_nalr config_compressor extend_noise =
     (let e = (case extend_noise of None \<Rightarrow> extend_noise_default | Some v \<Rightarrow> v);
          duration = track_duration' * (1 + e);
          (res, values) = preload_loop wavfile_read (hrtf_dir' @ ''/Anechoic/audio'')
                            ANECHOIC_HRTF Map.empty
      in bind_err res (\<lambda>_.
         bind_err (new_nalr config_nalr) (\<lambda>nalr.
         bind_err (new_compressor config_compressor) (\<lambda>comp.
           Inr \<lparr>track_duration = duration,
                sample_rate = sample_rate',
                hrtf_dir = hrtf_dir',
                hrir_values = values,
                enhancer = nalr,
                compressor = comp,
                carnoise = \<lparr>duration_secs = duration, generator_sample_rate = sample_rate'\<rparr>,
                loudness_meter = Meter sample_rate'\<rparr>))))"

text \<open>
  What a call of a method leaves in the instance. Of all the methods of the class only
  \<open>preload_anechoic_hrtf\<close> assigns an attribute of \<open>self\<close> (\<open>hrir_values\<close>).
  \<open>apply_hearing_aid\<close> calls into the enhancer and the compressor, and \<open>get_car_noise\<close>
  into the generator; the states these external objects are left in are carried by the
  call (for the generator, its internal state apart from its constructor arguments is not
  represented). The other methods only read the instance.
\<close>

datatype ('n, 'c) method_call =
    Preload_anechoic_hrtf string
  | Apply_hearing_aid 'n 'c
  | Add_anechoic_hrtf
  | Get_car_noise
  | Add_car_hrtf
  | Scale_signal_to_snr
  | Add_two_signals

fun after_call ::
  "(string \<Rightarrow> error + real list) \<Rightarrow> ('n, 'c) CarSceneAcoustics \<Rightarrow> ('n, 'c) method_call
     \<Rightarrow> ('n, 'c) CarSceneAcoustics" where
  "after_call wavfile_read self (Preload_anechoic_hrtf dir) =
     snd (preload_anechoic_hrtf wavfile_read dir self)"
| "after_call wavfile_read self (Apply_hearing_aid n c) = self\<lparr>enhancer := n, compressor := c\<rparr>"
| "after_call wavfile_read self _ = self"

text \<open>
  \<open>get_car_noise\<close>. \<open>generate_car_noise\<close> stands for the method of the external
  generator, applied to the generator object, the noise parameters,
  \<open>number_noise_sources\<close> and \<open>commonness_factor\<close>; its result type is left open, so it
  covers a raised error as well.
\<close>

definition get_car_noise ::
  "(CarNoiseSignalGenerator \<Rightarrow> 'p \<Rightarrow> nat \<Rightarrow> real \<Rightarrow> 'r) \<Rightarrow> ('n, 'c) CarSceneAcoustics \<Rightarrow> 'p \<Rightarrow> 'r" where
  "get_car_noise generate_car_noise self car_noise_params =
     generate_car_noise (carnoise self) car_noise_params 2 0"

text \<open>
  \<open>add_anechoic_hrtf\<close>. \<open>lookup\<close> is \<open>d[key]\<close>, \<open>row_at\<close> is \<open>a[i, :]\<close>, \<open>iadd\<close> is the
  in-place \<open>out += y\<close> on one-axis arrays (\<open>y\<close> must broadcast to the length of \<open>out\<close>) and
  \<open>stack2\<close> is \<open>np.stack([l, r], axis=0)\<close>. \<open>filter_row\<close> is one call
  \<open>lfilter(self.hrir_values[key], 1, noise_signal[i, :])\<close>, its arguments evaluated from
  left to right.
\<close>

definition lookup :: "(string \<rightharpoonup> 'v) \<Rightarrow> string \<Rightarrow> error + 'v" where
  "lookup d key = (case d key of None \<Rightarrow> Inl KeyError | Some v \<Rightarrow> Inr v)"

definition row_at :: "'a ndarray \<Rightarrow> nat \<Rightarrow> error + 'a list" where
  "row_at a i =
     (case a of
        Arr1 xs \<Rightarrow> Inl IndexError
      | Arr2 c rows \<Rightarrow> if i < length rows then Inr (rows ! i) else Inl IndexError)"

definition iadd :: "real list \<Rightarrow> real list \<Rightarrow> error + real list" where
  "iadd out y =
     (if length y = length out then Inr (map2 (+) out y)
      else if length y = 1 then Inr (map (\<lambda>v. v + hd y) out)
      else Inl ValueError)"

definition stack2 :: "real list \<Rightarrow> real list \<Rightarrow> error + real ndarray" where
  "stack2 l r = (if length l = length r then Inr (Arr2 (length l) [l, r]) else Inl ValueError)"

definition filter_row ::
  "(string \<rightharpoonup> real list) \<Rightarrow> string \<Rightarrow> real ndarray \<Rightarrow> nat \<Rightarrow> error + real list" where
  "filter_row values key noise_signal i =
     bind_err (lookup values key) (\<lambda>h.
     bind_err (row_at noise_signal i) (\<lambda>x.
       lfilter h [1] x))"

definition add_anechoic_hrtf ::
  "('n, 'c) CarSceneAcoustics \<Rightarrow> real ndarray \<Rightarrow> error + real ndarray" where
  "add_anechoic_hrtf self noise_signal =
     bind_err (filter_row (hrir_values self) ''000_left'' noise_signal 0) (\<lambda>out_left.
     bind_err (filter_row (hrir_values self) ''000_right'' noise_signal 0) (\<lambda>our_right.
     bind_err (bind_err (filter_row (hrir_values self) ''m90_left'' noise_signal 1)
                 (iadd out_left)) (\<lambda>out_left.
     bind_err (bind_err (filter_row (hrir_values self) ''m90_right'' noise_signal 1)
                 (iadd our_right)) (\<lambda>our_right.
     bind_err (bind_err (filter_row (hrir_values self) ''p90_left'' noise_signal 2)
                 (iadd out_left)) (\<lambda>out_left.
     bind_err (bind_err (filter_row (hrir_values self) ''p90_right'' noise_signal 2)
                 (iadd our_right)) (\<lambda>our_right.
       stack2 out_left our_right))))))"

section \<open>Signal files\<close>

text \<open>
  Modelled from the spec: \<open>clarity.utils.file_io\<close> (\<open>read_signal\<close>, \<open>write_signal\<close>) is
  not among the source files, only its tests are. A WAV file holds its sample rate and its
  frames, 16-bit integer PCM or floating point. The frames keep the axes of the buffer that
  was written: the tests read a one-axis buffer back with one axis, and the specification
  has a samples \<open>\<times>\<close> channels buffer read back as samples \<open>\<times>\<close> channels.
\<close>

datatype wav_data = PCM_16 "16 word ndarray" | FLOAT "real ndarray"

record wav_file =
  samplerate :: nat
  frames :: wav_data

text \<open>
  Modelled from the spec: the files \<open>write_signal\<close> and \<open>read_signal\<close> work on (the
  module is not among the source files), as a map from paths to WAV files.
\<close>

type_synonym filesystem = "string \<rightharpoonup> wav_file"

text \<open>
  Modelled from the spec: the samples of a buffer handed to the absent \<open>write_signal\<close>, in
  storage order.
\<close>

fun samples :: "'a ndarray \<Rightarrow> 'a list" where
  "samples (Arr1 xs) = xs"
| "samples (Arr2 c rows) = concat rows"

text \<open>
  Modelled from the spec: the full-scale value of the 16-bit format used by the absent
  \<open>write_signal\<close> and \<open>read_signal\<close>, and the test "after scaling, would exceed the
  representable integer range" (from -32768 to 32767).
\<close>

definition full_scale :: real where
  "full_scale = 32768"

definition clips :: "real \<Rightarrow> bool" where
  "clips x = (x * full_scale > 32767 \<or> x * full_scale < - 32768)"

text \<open>
  Modelled from the spec: the conversion of the absent \<open>write_signal\<close> to 16-bit integer
  PCM, "scaling by the format's full-scale value and rounding"; a value out of range is
  "wrapped per the underlying integer cast". \<open>from_int16\<close> is the conversion of the absent
  \<open>read_signal\<close> back to floating point, "scaled by the format's full-scale value".
\<close>

definition to_int16 :: "real \<Rightarrow> 16 word" where
  "to_int16 x = word_of_int (round (x * full_scale))"

definition from_int16 :: "16 word \<Rightarrow> real" where
  "from_int16 w = real_of_int (sint w) / full_scale"

text \<open>
  Modelled from the spec: \<open>write_signal(path, signal, sample_rate, floating_point,
  strict)\<close>, absent from the source files. It returns the outcome and the files afterwards.
  With \<open>strict\<close>, a clipping sample is a value error and no file is written. The logged
  warning of the non-strict case is not represented.
\<close>

definition write_signal ::
  "filesystem \<Rightarrow> string \<Rightarrow> real ndarray \<Rightarrow> nat \<Rightarrow> bool \<Rightarrow> bool \<Rightarrow> (error + unit) \<times> filesystem" where
  "write_signal fs filename signal rate floating_point strict =
     (if floating_point
      then (Inr (), fs(filename \<mapsto> \<lparr>samplerate = rate, frames = FLOAT signal\<rparr>))
      else if strict \<and> list_ex clips (samples signal)
      then (Inl ValueError, fs)
      else (Inr (), fs(filename \<mapsto>
              \<lparr>samplerate = rate, frames = PCM_16 (map_ndarray to_int16 signal)\<rparr>)))"

text \<open>
  Modelled from the spec: the channel count of a decoded file, the seek of the absent
  \<open>read_signal\<close> to a frame offset, and its decoding to floating point.
\<close>

fun channels :: "'a ndarray \<Rightarrow> nat" where
  "channels (Arr1 xs) = 1"
| "channels (Arr2 c rows) = c"

fun drop_frames :: "nat \<Rightarrow> 'a ndarray \<Rightarrow> 'a ndarray" where
  "drop_frames k (Arr1 xs) = Arr1 (drop k xs)"
| "drop_frames k (Arr2 c rows) = Arr2 c (drop k rows)"

fun decode :: "wav_data \<Rightarrow> real ndarray" where
  "decode (PCM_16 a) = map_ndarray from_int16 a"
| "decode (FLOAT a) = a"

text \<open>
  Modelled from the spec: the offset of the absent \<open>read_signal\<close>, "either a sample count
  or a time-in-seconds (selected by \<open>offset_is_samples\<close>)"; a time is taken to the nearest
  frame.
\<close>

definition offset_frames :: "real \<Rightarrow> bool \<Rightarrow> nat \<Rightarrow> nat" where
  "offset_frames offset offset_is_samples rate =
     (if offset_is_samples then nat \<lfloor>offset\<rfloor> else nat (round (offset * real rate)))"

text \<open>
  Modelled from the spec: \<open>read_signal(path, sample_rate, n_channels, offset,
  offset_is_samples, allow_resample)\<close>, absent from the source files. \<open>rate\<close> and
  \<open>n_channels\<close> are \<open>None\<close> when the caller leaves them out; the tests read a
  two-channel file with both left out, so nothing is validated then. \<open>resample\<close> stands
  for the external band-limited resampler.
\<close>

definition read_signal ::
  "(real ndarray \<Rightarrow> nat \<Rightarrow> nat \<Rightarrow> real ndarray) \<Rightarrow> filesystem \<Rightarrow> string \<Rightarrow> nat option
     \<Rightarrow> nat option \<Rightarrow> real \<Rightarrow> bool \<Rightarrow> bool \<Rightarrow> error + real ndarray" where
  "read_signal resample fs filename rate n_channels offset offset_is_samples allow_resample =
     (case fs filename of
        None \<Rightarrow> Inl OSError
      | Some f \<Rightarrow>
          bind_err
            (case n_channels of
               None \<Rightarrow> Inr ()
             | Some n \<Rightarrow> if n = channels (decode (frames f)) then Inr () else Inl ValueError)
            (\<lambda>_.
          let x = drop_frames (offset_frames offset offset_is_samples (samplerate f))
                    (decode (frames f))
          in case rate of
               None \<Rightarrow> Inr x
             | Some r \<Rightarrow>
                 if r = samplerate f then Inr x
                 else if allow_resample then Inr (resample x (samplerate f) r)
                 else Inl ValueError))"

section \<open>Properties of the loudness scaler\<close>

text \<open>
  Claim C1, as the code behaves: when no reference signal is supplied
  (\<open>reference_signal\<close> is None), the call does not reach the 0 LUFS default of line 245:
  reading \<open>reference_signal.shape\<close> on line 238 raises an attribute error, whatever the
  signal, the SNR and the loudness meter are.
\<close>

theorem scale_signal_to_snr_no_reference:
  "scale_signal_to_snr integrated_loudness signal None snr = Inl AttributeError"
  by (simp add: scale_signal_to_snr_def bind_err_def)

lemma shape_map_ndarray: "shape (map_ndarray f a) = shape a"
  by (cases a) simp_all

lemma shape_normalize_loudness: "shape (normalize_loudness a i t) = shape a"
  by (simp add: normalize_loudness_def shape_map_ndarray)

lemma shape_T_2d: "shape a = [r, c] \<Longrightarrow> shape (ndarray_T a) = [c, r]"
  by (cases a) auto

text \<open>
  Claim C2, as the code behaves: for a two-axis signal of shape \<open>(length rows, c)\<close>,
  a call that returns gives an array of shape \<open>(length rows, c)\<close>, the caller's own,
  when the orientation test fired (\<open>length rows < c\<close>), and of shape
  \<open>(c, length rows)\<close>, the axes swapped, when it did not: the closing transpose of line
  259 is applied in both cases.
\<close>

theorem scale_signal_to_snr_shape:
  assumes "scale_signal_to_snr integrated_loudness (Arr2 c rows) reference_signal snr = Inr out"
  shows "shape out = (if length rows < c then [length rows, c] else [c, length rows])"
proof -
  let ?sig = "if length rows < c then ndarray_T (Arr2 c rows) else Arr2 c rows"
  from assms obtain l t where out: "out = ndarray_T (normalize_loudness ?sig l t)"
    by (auto simp: scale_signal_to_snr_def bind_err_def shape_at_def
             split: sum.splits option.splits if_splits)
  have "shape ?sig = (if length rows < c then [c, length rows] else [length rows, c])"
    by simp
  then have "shape (normalize_loudness ?sig l t)
             = (if length rows < c then [c, length rows] else [length rows, c])"
    by (simp only: shape_normalize_loudness)
  then show ?thesis
    unfolding out by (auto simp: shape_T_2d split: if_splits)
qed

theorem scale_signal_to_snr_shape_witness:
  "scale_signal_to_snr (\<lambda>_. Inr 0) (Arr2 2 [[1, 2], [3, 4], [5, 6]])
       (Some (Arr2 2 [[1, 2], [3, 4], [5, 6]])) (Some 0)
     = Inr (Arr2 3 [[1, 3, 5], [2, 4, 6]])
   \<and> shape (Arr2 3 [[1, 3, 5], [2, 4, 6 :: real]]) = [2, 3]"
proof -
  have ev: "scale_signal_to_snr (\<lambda>_. Inr 0) (Arr2 2 [[1, 2], [3, 4], [5, 6]])
       (Some (Arr2 2 [[1, 2], [3, 4], [5, 6]])) (Some 0)
     = Inr (Arr2 3 [[1, 3, 5], [2, 4, 6]])"
    by (simp add: scale_signal_to_snr_def bind_err_def shape_at_def normalize_loudness_def
         upt_rec)
  from scale_signal_to_snr_shape [OF ev] ev show ?thesis by simp
qed

text \<open>
  Claim C8, where the code meets it: when a reference signal is supplied
  (\<open>reference_signal\<close> is an array), and the signal or the reference signal has one axis
  only, the call raises an index error at the orientation tests, whatever the loudness
  meter and the SNR are.
\<close>

theorem scale_signal_to_snr_one_axis:
  assumes "(\<exists>xs. signal = Arr1 xs) \<or> (\<exists>xs. r = Arr1 xs)"
  shows "scale_signal_to_snr integrated_loudness signal (Some r) snr = Inl IndexError"
  using assms
  by (cases r; cases signal)
     (auto simp: scale_signal_to_snr_def bind_err_def shape_at_def)

theorem scale_signal_to_snr_one_axis_witness:
  "scale_signal_to_snr (\<lambda>_. Inr 0) (Arr1 [1, 2, 3]) (Some (Arr2 3 [[1, 2, 3]])) (Some 0)
     = Inl IndexError
   \<and> scale_signal_to_snr (\<lambda>_. Inr 0) (Arr2 3 [[1, 2, 3]]) (Some (Arr1 [1, 2, 3])) (Some 0)
     = Inl IndexError"
  using scale_signal_to_snr_one_axis [of "Arr1 [1, 2, 3]" "Arr2 3 [[1, 2, 3]]" "\<lambda>_. Inr 0" "Some 0"]
        scale_signal_to_snr_one_axis [of "Arr2 3 [[1, 2, 3]]" "Arr1 [1, 2, 3]" "\<lambda>_. Inr 0" "Some 0"]
  by simp

text \<open>
  Claim C8 at its failing input, a one-axis signal without a reference signal: line 238
  reads the shape of None before the None test of line 245, so the call raises an
  attribute error and never reaches the index error of \<open>signal.shape[1]\<close>.
\<close>

theorem scale_signal_to_snr_one_axis_counterexample:
  "scale_signal_to_snr (\<lambda>_. Inr 0) (Arr1 [1, 2, 3]) None (Some 0) \<noteq> Inl IndexError"
  by (simp add: scale_signal_to_snr_def bind_err_def)

section \<open>Properties of the mixer\<close>

lemma add_two_signals_Arr2:
  assumes "length rows1 = length rows2"
    and "list_all (\<lambda>r. length r = c1) rows1" and "list_all (\<lambda>r. length r = c2) rows2"
  shows "add_two_signals (Arr2 c1 rows1) (Arr2 c2 rows2)
         = Inr (Arr2 (min c1 c2) (mixed_rows (min c1 c2) rows1 rows2))"
proof -
  have "map2 (\<lambda>x y. map2 (+) (stretch (min c1 c2) x) (stretch (min c1 c2) y))
          (map (take (min c1 c2)) rows1) (map (take (min c1 c2)) rows2)
        = map2 (\<lambda>x y. map2 (+) (take (min c1 c2) x) (take (min c1 c2) y)) rows1 rows2"
    using assms
  proof (induction rows1 rows2 rule: list_induct2)
    case Nil
    then show ?case by simp
  next
    case (Cons x xs y ys)
    then show ?case by (simp add: stretch_def min_def)
  qed
  then show ?thesis
    using assms(1)
    by (simp add: add_two_signals_def shape_at_def slice_cols_def bind_err_def bcast_dim_def
        stretch_def mixed_rows_def add_2d_def Let_def)
qed

text \<open>
  Claim C3: for two-axis buffers with the same channel count (channels along axis 0),
  \<open>add_two_signals\<close> returns a buffer with the same channels whose sample count is
  the smaller of the two sample counts, and whose entry \<open>[c][i]\<close> is the sum of the
  entries \<open>[c][i]\<close> of the two buffers. The witness is the example of two 2-channel
  buffers of lengths 5 and 3, which give a buffer of length 3.
\<close>

theorem add_two_signals_truncates_and_sums:
  assumes "wf_array (Arr2 c1 rows1)" and "wf_array (Arr2 c2 rows2)"
    and "length rows1 = length rows2"
  shows "\<exists>rows. add_two_signals (Arr2 c1 rows1) (Arr2 c2 rows2) = Inr (Arr2 (min c1 c2) rows)
           \<and> shape (Arr2 (min c1 c2) rows) = [length rows1, min c1 c2]
           \<and> wf_array (Arr2 (min c1 c2) rows)
           \<and> (\<forall>c < length rows1. \<forall>i < min c1 c2.
                 rows ! c ! i = rows1 ! c ! i + rows2 ! c ! i)"
proof -
  let ?n = "min c1 c2"
  let ?rows = "mixed_rows ?n rows1 rows2"
  have len1: "\<And>c. c < length rows1 \<Longrightarrow> length (rows1 ! c) = c1"
    using assms(1) by (simp add: list_all_length)
  have len2: "\<And>c. c < length rows2 \<Longrightarrow> length (rows2 ! c) = c2"
    using assms(2) by (simp add: list_all_length)
  have res: "add_two_signals (Arr2 c1 rows1) (Arr2 c2 rows2) = Inr (Arr2 ?n ?rows)"
    using assms by (simp add: add_two_signals_Arr2)
  have n_rows: "length ?rows = length rows1"
    using assms(3) by (simp add: mixed_rows_def)
  have row: "?rows ! c = map2 (+) (take ?n (rows1 ! c)) (take ?n (rows2 ! c))"
    if "c < length rows1" for c
    using that assms(3) by (simp add: mixed_rows_def)
  have wf: "wf_array (Arr2 ?n ?rows)"
    unfolding wf_array.simps list_all_length
  proof (intro allI impI)
    fix c assume "c < length ?rows"
    then have c: "c < length rows1" using n_rows by simp
    show "length (?rows ! c) = ?n"
      using row [OF c] len1 [OF c] len2 c assms(3) by simp
  qed
  have elems: "\<forall>c < length rows1. \<forall>i < ?n. ?rows ! c ! i = rows1 ! c ! i + rows2 ! c ! i"
  proof (intro allI impI)
    fix c i assume c: "c < length rows1" and i: "i < ?n"
    show "?rows ! c ! i = rows1 ! c ! i + rows2 ! c ! i"
      using row [OF c] len1 [OF c] len2 c i assms(3) by simp
  qed
  from res n_rows wf elems show ?thesis by auto
qed

theorem add_two_signals_truncates_and_sums_witness:
  "wf_array (Arr2 5 [[1, 2, 3, 4, 5], [6, 7, 8, 9, 10 :: real]])
   \<and> wf_array (Arr2 3 [[10, 20, 30], [40, 50, 60 :: real]])
   \<and> add_two_signals (Arr2 5 [[1, 2, 3, 4, 5], [6, 7, 8, 9, 10]])
        (Arr2 3 [[10, 20, 30], [40, 50, 60]])
       = Inr (Arr2 3 [[11, 22, 33], [46, 57, 68]])"
proof -
  have ev: "add_two_signals (Arr2 5 [[1, 2, 3, 4, 5], [6, 7, 8, 9, 10]])
        (Arr2 3 [[10, 20, 30], [40, 50, 60]])
       = Inr (Arr2 3 [[11, 22, 33], [46, 57, 68]])"
    by (simp add: add_two_signals_def shape_at_def slice_cols_def bind_err_def bcast_dim_def
        stretch_def add_2d_def)
  from add_two_signals_truncates_and_sums
         [of 5 "[[1, 2, 3, 4, 5], [6, 7, 8, 9, 10]]" 3 "[[10, 20, 30], [40, 50, 60]]"] ev
  show ?thesis by simp
qed

section \<open>Properties of the anechoic spatializer\<close>

lemma dot_sum_nth:
  "dot xs ys = (\<Sum>k\<leftarrow>[0..<min (length xs) (length ys)]. xs ! k * ys ! k)"
proof -
  have "map2 (*) xs ys = map (\<lambda>k. xs ! k * ys ! k) [0..<min (length xs) (length ys)]"
    by (rule nth_equalityI) simp_all
  then show ?thesis by (simp add: dot_def)
qed

lemma lfilter_run_fir:
  "lfilter_run b [1] xpast ypast xs
   = map (\<lambda>n. dot b (rev (take (Suc n) xs) @ xpast)) [0..<length xs]"
proof (induction xs arbitrary: xpast ypast)
  case Nil
  then show ?case by simp
next
  case (Cons x xs)
  have "map (\<lambda>n. dot b (rev (take (Suc n) (x # xs)) @ xpast)) [0..<length (x # xs)]
        = dot b (x # xpast) # map (\<lambda>n. dot b (rev (take (Suc n) xs) @ x # xpast)) [0..<length xs]"
    by (simp add: map_upt_Suc del: upt_Suc)
  then show ?case
    using Cons.IH [of "x # xpast"] by (simp add: Let_def dot_def)
qed

lemma lfilter_is_causal_fir:
  assumes "h \<noteq> []" and "x \<noteq> []"
  shows "lfilter h [1] x = Inr (causal_fir h x)"
proof -
  have "dot h (rev (take (Suc n) x))
        = (\<Sum>k\<leftarrow>[0..<min (Suc n) (length h)]. h ! k * x ! (n - k))"
    if n: "n < length x" for n
  proof -
    have len: "length (rev (take (Suc n) x)) = Suc n"
      using n by simp
    have nth: "rev (take (Suc n) x) ! k = x ! (n - k)" if "k < Suc n" for k
    proof -
      have "rev (take (Suc n) x) ! k = take (Suc n) x ! (n - k)"
        using n that by (simp add: rev_nth)
      then show ?thesis by simp
    qed
    have "dot h (rev (take (Suc n) x))
          = (\<Sum>k\<leftarrow>[0..<min (length h) (Suc n)]. h ! k * rev (take (Suc n) x) ! k)"
      by (simp only: dot_sum_nth len)
    also have "\<dots> = (\<Sum>k\<leftarrow>[0..<min (length h) (Suc n)]. h ! k * x ! (n - k))"
      by (rule arg_cong [where f = sum_list], rule map_cong [OF refl]) (simp add: nth)
    finally show ?thesis
      by (simp only: min.commute)
  qed
  then show ?thesis
    using assms by (simp add: lfilter_def causal_fir_def lfilter_run_fir)
qed

lemma lfilter_empty: "lfilter h a [] = Inl ValueError" "lfilter [] a x = Inl ValueError"
  by (simp_all add: lfilter_def)

lemma length_causal_fir: "length (causal_fir h x) = length x"
  by (simp add: causal_fir_def)

lemma filter_row_Arr2:
  "values key = Some h \<Longrightarrow> i < length rows \<Longrightarrow> h \<noteq> [] \<Longrightarrow> rows ! i \<noteq> []
   \<Longrightarrow> filter_row values key (Arr2 n rows) i = Inr (causal_fir h (rows ! i))"
  by (simp add: filter_row_def lookup_def row_at_def bind_err_def lfilter_is_causal_fir)

text \<open>
  Claim C4, amended: for a noise buffer of shape \<open>(3, n)\<close> with at least one sample
  (\<open>0 < n\<close>) and an instance holding the six anechoic impulse responses, each with at
  least one tap, \<open>add_anechoic_hrtf\<close> returns a buffer of shape
  \<open>(2, n)\<close>. Its left channel is the sum, over the three rows, of the causal FIR
  filtering of the row with the left-ear response of its direction (front for row 0, -90
  degrees for row 1, +90 degrees for row 2), and its right channel is the same sum with the
  right-ear responses.
\<close>

theorem add_anechoic_hrtf_sums_filtered_rows:
  assumes wf: "wf_array (Arr2 n [engine, left_src, right_src])"
    and n: "0 < n"
    and taps: "h000_left \<noteq> []" "h000_right \<noteq> []" "hm90_left \<noteq> []"
              "hm90_right \<noteq> []" "hp90_left \<noteq> []" "hp90_right \<noteq> []"
    and h: "hrir_values self ''000_left'' = Some h000_left"
           "hrir_values self ''000_right'' = Some h000_right"
           "hrir_values self ''m90_left'' = Some hm90_left"
           "hrir_values self ''m90_right'' = Some hm90_right"
           "hrir_values self ''p90_left'' = Some hp90_left"
           "hrir_values self ''p90_right'' = Some hp90_right"
  shows "add_anechoic_hrtf self (Arr2 n [engine, left_src, right_src])
         = Inr (Arr2 n
             [map (\<lambda>i. causal_fir h000_left engine ! i + causal_fir hm90_left left_src ! i
                        + causal_fir hp90_left right_src ! i) [0..<n],
              map (\<lambda>i. causal_fir h000_right engine ! i + causal_fir hm90_right left_src ! i
                        + causal_fir hp90_right right_src ! i) [0..<n]])"
proof -
  from wf have len: "length engine = n" "length left_src = n" "length right_src = n"
    by simp_all
  have acc: "map2 (+) (map2 (+) (causal_fir a engine) (causal_fir b left_src))
               (causal_fir c right_src)
             = map (\<lambda>i. causal_fir a engine ! i + causal_fir b left_src ! i
                         + causal_fir c right_src ! i) [0..<n]" for a b c
    by (rule nth_equalityI) (simp_all add: length_causal_fir len)
  have rows: "filter_row (hrir_values self) key (Arr2 n [engine, left_src, right_src]) i
              = Inr (causal_fir hh ([engine, left_src, right_src] ! i))"
    if "hrir_values self key = Some hh" "hh \<noteq> []" "i < 3" for key hh i
  proof -
    have "[engine, left_src, right_src] ! i \<noteq> []"
      using len n that(3) by (auto simp: less_Suc_eq numeral_3_eq_3)
    with that show ?thesis
      by (simp add: filter_row_Arr2)
  qed
  show ?thesis
    unfolding add_anechoic_hrtf_def
    by (simp add: rows h taps bind_err_def iadd_def stack2_def length_causal_fir len acc)
qed

theorem add_anechoic_hrtf_sums_filtered_rows_witness:
  "wf_array (Arr2 2 [[1, 0], [0, 1], [1, 1 :: real]])
   \<and> (0 :: nat) < 2
   \<and> [1, 2] \<noteq> ([] :: real list) \<and> [3] \<noteq> ([] :: real list) \<and> [1] \<noteq> ([] :: real list)
   \<and> [0, 1] \<noteq> ([] :: real list) \<and> [2] \<noteq> ([] :: real list) \<and> [1, 1] \<noteq> ([] :: real list)
   \<and> add_anechoic_hrtf
        \<lparr>track_duration = 12, sample_rate = 44100, hrtf_dir = ''hrtf'',
         hrir_values = [''000_left'' \<mapsto> [1, 2], ''000_right'' \<mapsto> [3],
                        ''m90_left'' \<mapsto> [1], ''m90_right'' \<mapsto> [0, 1],
                        ''p90_left'' \<mapsto> [2], ''p90_right'' \<mapsto> [1, 1]],
         enhancer = (), compressor = (),
         carnoise = \<lparr>duration_secs = 12, generator_sample_rate = 44100\<rparr>,
         loudness_meter = Meter 44100\<rparr>
        (Arr2 2 [[1, 0], [0, 1], [1, 1]])
      = Inr (Arr2 2 [[3, 5], [4, 2]])"
proof -
  let ?self = "\<lparr>track_duration = 12, sample_rate = 44100, hrtf_dir = ''hrtf'',
         hrir_values = [''000_left'' \<mapsto> [1, 2], ''000_right'' \<mapsto> [3],
                        ''m90_left'' \<mapsto> [1], ''m90_right'' \<mapsto> [0, 1],
                        ''p90_left'' \<mapsto> [2], ''p90_right'' \<mapsto> [1, 1 :: real]],
         enhancer = (), compressor = (),
         carnoise = \<lparr>duration_secs = 12, generator_sample_rate = 44100\<rparr>,
         loudness_meter = Meter 44100\<rparr>"
  have wf: "wf_array (Arr2 2 [[1, 0], [0, 1], [1, 1 :: real]])"
    by simp
  have two: "[0..<2] = [0, Suc 0]"
    by (simp add: upt_rec)
  from add_anechoic_hrtf_sums_filtered_rows
         [OF wf, of "[1, 2]" "[3]" "[1]" "[0, 1]" "[2]" "[1, 1]" ?self] wf
  show ?thesis
    by (simp add: causal_fir_def two upt_rec)
qed

text \<open>
  Claim C4 as stated fails for a noise buffer of shape \<open>(3, 0)\<close>: the first call of
  \<open>lfilter\<close> (line 139) gets an empty row and raises a value error, so no buffer of
  shape \<open>(2, 0)\<close> is returned.
\<close>

theorem add_anechoic_hrtf_empty_counterexample:
  "add_anechoic_hrtf
     \<lparr>track_duration = 12, sample_rate = 44100, hrtf_dir = ''hrtf'',
      hrir_values = [''000_left'' \<mapsto> [1, 2], ''000_right'' \<mapsto> [3],
                     ''m90_left'' \<mapsto> [1], ''m90_right'' \<mapsto> [0, 1],
                     ''p90_left'' \<mapsto> [2], ''p90_right'' \<mapsto> [1, 1]],
      enhancer = (), compressor = (),
      carnoise = \<lparr>duration_secs = 12, generator_sample_rate = 44100\<rparr>,
      loudness_meter = Meter 44100\<rparr>
     (Arr2 0 [[], [], []])
   = Inl ValueError"
  by (simp add: add_anechoic_hrtf_def filter_row_def lookup_def row_at_def bind_err_def
       lfilter_def)

section \<open>Properties of the scene instance\<close>

text \<open>
  Claim C9: for every noise-parameter dictionary, \<open>get_car_noise\<close> calls the
  generator of the instance with \<open>number_noise_sources\<close> 2 and \<open>commonness_factor\<close>
  0, and returns what the generator returns, unchanged; neither value depends on the
  caller's arguments.
\<close>

theorem get_car_noise_fixed_arguments:
  "get_car_noise generate_car_noise self car_noise_params
   = generate_car_noise (carnoise self) car_noise_params 2 0"
  by (simp add: get_car_noise_def)

lemma after_call_keeps_duration:
  "track_duration (after_call wavfile_read self call) = track_duration self
   \<and> duration_secs (carnoise (after_call wavfile_read self call)) = duration_secs (carnoise self)"
  by (cases call) (simp_all add: preload_anechoic_hrtf_def split: prod.splits)

lemma calls_keep_duration:
  "track_duration (foldl (after_call wavfile_read) self calls) = track_duration self
   \<and> duration_secs (carnoise (foldl (after_call wavfile_read) self calls))
       = duration_secs (carnoise self)"
proof (induction calls arbitrary: self)
  case Nil
  then show ?case by simp
next
  case (Cons call calls)
  show ?case
    using Cons.IH [of "after_call wavfile_read self call"]
      after_call_keeps_duration [of wavfile_read self call]
    by simp
qed

text \<open>
  Claim C10: when the construction with the track duration \<open>d\<close> and the extension
  factor \<open>e\<close> (0.2 when left out) succeeds, the stored \<open>track_duration\<close> is
  \<open>d * (1 + e)\<close>, the car-noise generator was constructed with that duration, and
  both still hold after any sequence of method calls on the instance.
\<close>

theorem init_track_duration_extended:
  assumes "init wavfile_read new_nalr new_compressor d rate dir config_nalr config_compressor
             extend_noise = Inr self"
  shows "track_duration self
           = d * (1 + (case extend_noise of None \<Rightarrow> 0.2 | Some e \<Rightarrow> e))
       \<and> duration_secs (carnoise self) = track_duration self
       \<and> track_duration (foldl (after_call wavfile_read') self calls) = track_duration self
       \<and> duration_secs (carnoise (foldl (after_call wavfile_read') self calls))
           = track_duration self"
proof -
  from assms have td: "track_duration self
           = d * (1 + (case extend_noise of None \<Rightarrow> 0.2 | Some e \<Rightarrow> e))"
    and cn: "duration_secs (carnoise self) = track_duration self"
    by (auto simp: init_def bind_err_def Let_def extend_noise_default_def
             split: prod.splits sum.splits option.splits)
  from td cn calls_keep_duration [of wavfile_read' self calls] show ?thesis
    by simp
qed

theorem init_track_duration_extended_witness:
  "\<exists>self :: (unit, unit) CarSceneAcoustics.
     init (\<lambda>_. Inr [1]) Inr Inr 10 44100 ''hrtf'' () () None = Inr self
     \<and> track_duration self = 12
     \<and> duration_secs (carnoise self) = 12
     \<and> track_duration
         (foldl (after_call (\<lambda>_. Inl OSError)) self [Get_car_noise, Preload_anechoic_hrtf ''x''])
         = 12"
proof -
  obtain self :: "(unit, unit) CarSceneAcoustics"
    where i: "init (\<lambda>_. Inr [1]) Inr Inr 10 44100 ''hrtf'' () () None = Inr self"
    by (simp add: init_def bind_err_def Let_def ANECHOIC_HRTF_def)
  from init_track_duration_extended
         [OF i, of "\<lambda>_. Inl OSError" "[Get_car_noise, Preload_anechoic_hrtf ''x'']"] i
  show ?thesis by simp
qed

section \<open>Properties of the signal files\<close>

lemma sint_to_int16:
  assumes "\<not> clips x"
  shows "sint (to_int16 x) = round (x * full_scale)"
proof -
  from assms have lo: "- 32768 \<le> x * full_scale" and hi: "x * full_scale \<le> 32767"
    by (simp_all add: clips_def not_less)
  have "round (of_int (- 32768) :: real) \<le> round (x * full_scale)"
    by (rule round_mono) (use lo in simp)
  then have qlo: "- 32768 \<le> round (x * full_scale)"
    by (simp only: round_of_int)
  have "round (x * full_scale) \<le> round (of_int 32767 :: real)"
    by (rule round_mono) (use hi in simp)
  then have qhi: "round (x * full_scale) \<le> 32767"
    by (simp only: round_of_int)
  have "signed_take_bit 15 (round (x * full_scale)) = round (x * full_scale)"
    by (rule signed_take_bit_int_eq_self) (use qlo qhi in simp_all)
  then show ?thesis
    by (simp add: to_int16_def signed_of_int)
qed

lemma quantise_error:
  assumes "\<not> clips x"
  shows "\<bar>from_int16 (to_int16 x) - x\<bar> \<le> 1 / 65536"
proof -
  have "\<bar>of_int (round (x * 32768)) - x * 32768\<bar> \<le> (1 / 2 :: real)"
    by (rule of_int_round_abs_le)
  then have "\<bar>of_int (round (x * 32768)) / 32768 - x\<bar> \<le> (1 / 65536 :: real)"
    by (simp add: abs_le_iff field_simps)
  then show ?thesis
    using sint_to_int16 [OF assms] by (simp add: from_int16_def full_scale_def)
qed

lemma roundtrip_close:
  assumes "list_all (\<lambda>x. \<not> clips x) (samples signal)"
  shows "rel_ndarray (\<lambda>a b. \<bar>a - b\<bar> \<le> 1 / 16384)
           (map_ndarray from_int16 (map_ndarray to_int16 signal)) signal"
proof -
  have close: "\<bar>from_int16 (to_int16 x) - x\<bar> \<le> 1 / 16384" if "\<not> clips x" for x
    using quantise_error [OF that] by simp
  show ?thesis
  proof (cases signal)
    case (Arr1 xs)
    with assms close show ?thesis
      by (simp add: list.rel_map list_all2_same list_all_iff)
  next
    case (Arr2 c rows)
    with assms close show ?thesis
      by (simp add: list.rel_map list_all2_same list_all_iff)
  qed
qed

text \<open>
  Claim C5: for a signal whose samples all lie in \<open>[-1, 1]\<close> and do not clip when
  scaled, writing it as 16-bit integers with \<open>strict\<close> set succeeds, and reading the
  file back (at the rate it was written with) returns a buffer of the same shape whose
  every sample is within \<open>1/16384\<close> of the original.
\<close>

theorem write_read_roundtrip:
  assumes "list_all (\<lambda>x. - 1 \<le> x \<and> x \<le> 1 \<and> \<not> clips x) (samples signal)"
  shows "\<exists>r. write_signal fs filename signal rate False True
              = (Inr (), fs(filename \<mapsto>
                   \<lparr>samplerate = rate, frames = PCM_16 (map_ndarray to_int16 signal)\<rparr>))
          \<and> read_signal resample (snd (write_signal fs filename signal rate False True))
               filename (Some rate) None 0 False allow_resample = Inr r
          \<and> shape r = shape signal
          \<and> rel_ndarray (\<lambda>a b. \<bar>a - b\<bar> \<le> 1 / 16384) r signal"
proof -
  let ?r = "map_ndarray from_int16 (map_ndarray to_int16 signal)"
  from assms have noclip: "list_all (\<lambda>x. \<not> clips x) (samples signal)"
    by (simp add: list_all_iff)
  then have "\<not> list_ex clips (samples signal)"
    by (simp add: list_all_iff list_ex_iff)
  then have w: "write_signal fs filename signal rate False True
              = (Inr (), fs(filename \<mapsto>
                   \<lparr>samplerate = rate, frames = PCM_16 (map_ndarray to_int16 signal)\<rparr>))"
    by (simp add: write_signal_def)
  have d: "drop_frames 0 a = a" for a :: "real ndarray"
    by (cases a) simp_all
  have r: "read_signal resample (snd (write_signal fs filename signal rate False True))
               filename (Some rate) None 0 False allow_resample = Inr ?r"
    by (simp add: w read_signal_def bind_err_def offset_frames_def d)
  have s: "shape ?r = shape signal"
    by (cases signal) simp_all
  from w r s roundtrip_close [OF noclip] show ?thesis by blast
qed

theorem write_read_roundtrip_witness:
  "list_all (\<lambda>x. - 1 \<le> x \<and> x \<le> 1 \<and> \<not> clips x) (samples (Arr1 [0.1, - 0.2, 0.1, - 1, 0.99]))
   \<and> (\<exists>r. read_signal (\<lambda>x _ _. x)
             (snd (write_signal Map.empty ''test.wav'' (Arr1 [0.1, - 0.2, 0.1, - 1, 0.99])
                     16000 False True))
             ''test.wav'' (Some 16000) None 0 False False = Inr r
          \<and> shape r = [5]
          \<and> rel_ndarray (\<lambda>a b. \<bar>a - b\<bar> \<le> 1 / 16384) r (Arr1 [0.1, - 0.2, 0.1, - 1, 0.99]))"
proof -
  have h: "list_all (\<lambda>x. - 1 \<le> x \<and> x \<le> 1 \<and> \<not> clips x)
             (samples (Arr1 [0.1, - 0.2, 0.1, - 1, 0.99]))"
    by (simp add: clips_def full_scale_def)
  from write_read_roundtrip [OF h, of Map.empty "''test.wav''" 16000 "\<lambda>x _ _. x" False] h
  show ?thesis by auto
qed

text \<open>
  Claim C6: for a signal with at least one sample whose scaled value is out of the 16-bit
  range, writing it as integers with \<open>strict\<close> set fails with a value error and leaves
  the files as they were; without \<open>strict\<close> the write succeeds and stores the wrapped
  values.
\<close>

theorem write_signal_clipping:
  assumes "list_ex clips (samples signal)"
  shows "write_signal fs filename signal rate False True = (Inl ValueError, fs)
       \<and> write_signal fs filename signal rate False False
           = (Inr (), fs(filename \<mapsto>
                \<lparr>samplerate = rate, frames = PCM_16 (map_ndarray to_int16 signal)\<rparr>))"
  using assms by (simp add: write_signal_def)

theorem write_signal_clipping_witness:
  "list_ex clips (samples (Arr2 2 (replicate 10 [2, 2])))
   \<and> write_signal Map.empty ''test.wav'' (Arr2 2 (replicate 10 [2, 2])) 16000 False True
       = (Inl ValueError, Map.empty)
   \<and> fst (write_signal Map.empty ''test.wav'' (Arr2 2 (replicate 10 [2, 2])) 16000 False False)
       = Inr ()"
proof -
  have h: "list_ex clips (samples (Arr2 2 (replicate 10 [2, 2])))"
    by (simp add: clips_def full_scale_def eval_nat_numeral)
  from write_signal_clipping [OF h, of Map.empty "''test.wav''" 16000] h
  show ?thesis by simp
qed

lemma drop_frames_close:
  assumes "list_all (\<lambda>x. \<not> clips x) (concat rows)"
  shows "list_all2 (list_all2 (\<lambda>a b. \<bar>a - b\<bar> \<le> 1 / 16384))
           (drop k (map (map (\<lambda>x. from_int16 (to_int16 x))) rows)) (drop k rows)"
proof -
  have close: "\<bar>from_int16 (to_int16 x) - x\<bar> \<le> 1 / 16384" if "\<not> clips x" for x
    using quantise_error [OF that] by simp
  have "\<forall>row \<in> set (drop k rows). \<forall>x \<in> set row. \<not> clips x"
    using assms by (auto simp: list_all_iff dest: in_set_dropD)
  with close show ?thesis
    by (simp add: drop_map list.rel_map list_all2_same)
qed

text \<open>
  Claim C7: a buffer of 10 samples by 2 channels, of any content that does not clip, is
  written at 10000 Hz as 16-bit integers. Reading it with the offset 3 counted in samples
  returns 7 samples by 2 channels, namely the decoded frames 3 to 9 of the file, each
  sample within \<open>1/16384\<close> of the buffer's, and so does reading it with the offset 0.0003
  counted in seconds.
\<close>

theorem read_signal_offset:
  assumes "length rows = 10" and "list_all (\<lambda>x. \<not> clips x) (concat rows)"
  shows "read_signal resample
           (snd (write_signal fs filename (Arr2 2 rows) 10000 False True))
           filename None None 3 True allow_resample
         = Inr (Arr2 2 (drop 3 (map (map (\<lambda>x. from_int16 (to_int16 x))) rows)))
       \<and> read_signal resample
           (snd (write_signal fs filename (Arr2 2 rows) 10000 False True))
           filename None None 0.0003 False allow_resample
         = Inr (Arr2 2 (drop 3 (map (map (\<lambda>x. from_int16 (to_int16 x))) rows)))
       \<and> shape (Arr2 2 (drop 3 (map (map (\<lambda>x. from_int16 (to_int16 x))) rows))) = [7, 2]
       \<and> rel_ndarray (\<lambda>a b. \<bar>a - b\<bar> \<le> 1 / 16384)
           (Arr2 2 (drop 3 (map (map (\<lambda>x. from_int16 (to_int16 x))) rows)))
           (Arr2 2 (drop 3 rows))"
proof -
  let ?sig = "Arr2 2 rows :: real ndarray"
  let ?out = "Arr2 2 (drop 3 (map (map (\<lambda>x. from_int16 (to_int16 x))) rows))"
  from assms(2) have nc: "\<not> list_ex clips (samples ?sig)"
    by (simp add: list_all_iff list_ex_iff)
  have w: "snd (write_signal fs filename ?sig 10000 False True)
           = fs(filename \<mapsto> \<lparr>samplerate = 10000, frames = PCM_16 (map_ndarray to_int16 ?sig)\<rparr>)"
    using nc by (simp only: write_signal_def if_False simp_thms snd_conv)
  have o1: "offset_frames 3 True 10000 = 3"
    by (simp add: offset_frames_def)
  have o2: "offset_frames 0.0003 False 10000 = 3"
    by (simp add: offset_frames_def)
  have r1: "read_signal resample (snd (write_signal fs filename ?sig 10000 False True))
     filename None None 3 True allow_resample = Inr ?out"
    unfolding w read_signal_def by (simp add: bind_err_def o1 comp_def)
  have r2: "read_signal resample (snd (write_signal fs filename ?sig 10000 False True))
     filename None None 0.0003 False allow_resample = Inr ?out"
    unfolding w read_signal_def by (simp add: bind_err_def o2 [simplified] comp_def)
  have s: "shape ?out = [7, 2]"
    using assms(1) by simp
  have c: "rel_ndarray (\<lambda>a b. \<bar>a - b\<bar> \<le> 1 / 16384) ?out (Arr2 2 (drop 3 rows))"
    using drop_frames_close [OF assms(2), of 3] by simp
  from r1 r2 s c show ?thesis by blast
qed

theorem read_signal_offset_witness:
  "length [[0, 0], [1 / 8, - (1 / 8)], [1 / 4, - (1 / 4)], [3 / 8, - (3 / 8)], [1 / 2, - (1 / 2)],
           [5 / 8, - (5 / 8)], [3 / 4, - (3 / 4)], [7 / 8, - (7 / 8)], [- 1, 1 / 16],
           [1 / 16, - 1 :: real]] = 10
   \<and> list_all (\<lambda>x. \<not> clips x)
        (concat [[0, 0], [1 / 8, - (1 / 8)], [1 / 4, - (1 / 4)], [3 / 8, - (3 / 8)], [1 / 2, - (1 / 2)],
           [5 / 8, - (5 / 8)], [3 / 4, - (3 / 4)], [7 / 8, - (7 / 8)], [- 1, 1 / 16], [1 / 16, - 1]])
   \<and> read_signal (\<lambda>x _ _. x)
        (snd (write_signal Map.empty ''test.wav''
           (Arr2 2 [[0, 0], [1 / 8, - (1 / 8)], [1 / 4, - (1 / 4)], [3 / 8, - (3 / 8)],
              [1 / 2, - (1 / 2)], [5 / 8, - (5 / 8)], [3 / 4, - (3 / 4)], [7 / 8, - (7 / 8)],
              [- 1, 1 / 16], [1 / 16, - 1]])
           10000 False True))
        ''test.wav'' None None 3 True False
      = Inr (Arr2 2 [[3 / 8, - (3 / 8)], [1 / 2, - (1 / 2)], [5 / 8, - (5 / 8)], [3 / 4, - (3 / 4)],
               [7 / 8, - (7 / 8)], [- 1, 1 / 16], [1 / 16, - 1]])
   \<and> read_signal (\<lambda>x _ _. x)
        (snd (write_signal Map.empty ''test.wav''
           (Arr2 2 [[0, 0], [1 / 8, - (1 / 8)], [1 / 4, - (1 / 4)], [3 / 8, - (3 / 8)],
              [1 / 2, - (1 / 2)], [5 / 8, - (5 / 8)], [3 / 4, - (3 / 4)], [7 / 8, - (7 / 8)],
              [- 1, 1 / 16], [1 / 16, - 1]])
           10000 False True))
        ''test.wav'' None None 0.0003 False False
      = Inr (Arr2 2 [[3 / 8, - (3 / 8)], [1 / 2, - (1 / 2)], [5 / 8, - (5 / 8)], [3 / 4, - (3 / 4)],
               [7 / 8, - (7 / 8)], [- 1, 1 / 16], [1 / 16, - 1]])"
proof -
  let ?rows = "[[0, 0], [1 / 8, - (1 / 8)], [1 / 4, - (1 / 4)], [3 / 8, - (3 / 8)], [1 / 2, - (1 / 2)],
           [5 / 8, - (5 / 8)], [3 / 4, - (3 / 4)], [7 / 8, - (7 / 8)], [- 1, 1 / 16],
           [1 / 16, - 1 :: real]]"
  have l: "length ?rows = 10"
    by simp
  have nc: "list_all (\<lambda>x. \<not> clips x) (concat ?rows)"
    by (simp add: clips_def full_scale_def)
  have q: "from_int16 (to_int16 (3 / 8)) = 3 / 8" "from_int16 (to_int16 (- (3 / 8))) = - (3 / 8)"
    "from_int16 (to_int16 (1 / 2)) = 1 / 2" "from_int16 (to_int16 (- (1 / 2))) = - (1 / 2)"
    "from_int16 (to_int16 (5 / 8)) = 5 / 8" "from_int16 (to_int16 (- (5 / 8))) = - (5 / 8)"
    "from_int16 (to_int16 (3 / 4)) = 3 / 4" "from_int16 (to_int16 (- (3 / 4))) = - (3 / 4)"
    "from_int16 (to_int16 (7 / 8)) = 7 / 8" "from_int16 (to_int16 (- (7 / 8))) = - (7 / 8)"
    "from_int16 (to_int16 (1 / 16)) = 1 / 16" "from_int16 (to_int16 (- 1)) = - 1"
    by (simp_all add: from_int16_def to_int16_def full_scale_def)
  from read_signal_offset [OF l nc, of "\<lambda>x _ _. x" Map.empty "''test.wav''" False] l nc
  show ?thesis
    by (simp add: q)
qed

end
